theory Spec2Isabelle
  imports Main
begin

section \<open>Data model\<close>

text \<open>
  The service types of \<^verbatim>\<open>NetworkService.network_service_map\<close> and the two layers
  of a network service.
\<close>

datatype ServiceType =
    L2Bridge | L2PTP | L2STS | PortMirror
  | FABNetv4 | FABNetv6 | FABNetv4Ext | FABNetv6Ext | L3VPN

datatype NSLayer = L2 | L3

text \<open>
  A node as the resolver and the validator read it: \<^verbatim>\<open>get_name()\<close>,
  \<^verbatim>\<open>get_site()\<close>, \<^verbatim>\<open>get_host()\<close> (\<open>None\<close> when the node has no
  host pin) and whether it is an instance of \<^verbatim>\<open>FacilityPort\<close>.
\<close>

record node =
  node_name :: string
  node_site :: string
  node_host :: "string option"
  facility_port :: bool

datatype ipaddr = IPv4Address nat | IPv6Address nat

text \<open>
  An interface: \<^verbatim>\<open>get_name()\<close>, \<^verbatim>\<open>get_site()\<close>, \<^verbatim>\<open>get_node()\<close>,
  \<^verbatim>\<open>get_model()\<close>, \<^verbatim>\<open>get_vlan()\<close>, \<^verbatim>\<open>get_ip_addr()\<close> and the two
  entries \<^verbatim>\<open>"addr"\<close> and \<^verbatim>\<open>"auto"\<close> of its own fablib data that
  \<^verbatim>\<open>add_interface\<close> reads.
\<close>

record interface =
  if_name :: string
  if_site :: string
  if_node :: node
  if_model :: string
  if_vlan :: "string option"
  if_ip_addr :: "ipaddr option"
  if_data_addr :: "ipaddr option"
  if_data_auto :: bool

datatype violation =
    SiteCount nat
  | NodeUnbound string
  | HostShared string

datatype error =
    TooManySites
  | BridgeSites nat
  | PTPSites nat
  | PTPBasicNIC
  | Violations "violation list"
  | UnknownNetworkType "ServiceType option"
  | InvalidL2Type string
  | PortMirrorAttach
  | L3OneSite
  | KeyError string
  | IndexError
  | NoServiceType

section \<open>The L2 type resolver\<close>

text \<open>
  One round of the loop of \<^verbatim>\<open>__calculate_l2_nstype\<close> over the interfaces. The state
  is \<open>(sites, includes_facility_port, facility_port_interfaces, basic_nic_count)\<close>.
\<close>

fun calculate_step ::
  "string set \<times> bool \<times> nat \<times> nat \<Rightarrow> interface \<Rightarrow> string set \<times> bool \<times> nat \<times> nat" where
  "calculate_step (sites, includes_facility_port, facility_port_interfaces, basic_nic_count) i =
     (insert (if_site i) sites,
      (if facility_port (if_node i) then True else includes_facility_port),
      (if facility_port (if_node i) then facility_port_interfaces + 1
       else facility_port_interfaces),
      (if if_model i = ''NIC_Basic'' then basic_nic_count + 1 else basic_nic_count))"

text \<open>
  \<^verbatim>\<open>__calculate_l2_nstype(interfaces, ero_enabled)\<close>. The result \<open>Inr None\<close> is the
  \<^verbatim>\<open>rtn_nstype = None\<close> that falls through when no branch assigns a type; \<open>Inl\<close> is
  the raised exception.
\<close>

definition calculate_l2_nstype :: "interface list \<Rightarrow> bool \<Rightarrow> error + ServiceType option" where
  "calculate_l2_nstype interfaces ero_enabled =
     (case foldl calculate_step ({}, False, 0, 0) interfaces of
        (sites, includes_facility_port, facility_port_interfaces, basic_nic_count) \<Rightarrow>
          if card sites \<le> 1 then Inr (Some L2Bridge)
          else if card sites = 2 then
            (if ((includes_facility_port \<and> facility_port_interfaces < 2) \<or> ero_enabled)
                \<and> basic_nic_count = 0
             then Inr (Some L2PTP)
             else if length interfaces \<ge> 2 then Inr (Some L2STS)
             else Inr None)
          else Inl TooManySites)"

section \<open>The validator\<close>

text \<open>
  The first loop of the L2STS branch: \<^verbatim>\<open>nodes_per_site\<close> gets a key for the site of
  every interface's node, and counts the interfaces there whose node is not a facility
  port.
\<close>

definition nodes_per_site_step :: "(string \<rightharpoonup> nat) \<Rightarrow> interface \<Rightarrow> (string \<rightharpoonup> nat)" where
  "nodes_per_site_step m i =
     (let site = node_site (if_node i);
          c = (case m site of None \<Rightarrow> 0 | Some c \<Rightarrow> c)
      in m(site \<mapsto> (if facility_port (if_node i) then c else c + 1)))"

definition nodes_per_site :: "interface list \<Rightarrow> (string \<rightharpoonup> nat)" where
  "nodes_per_site interfaces = foldl nodes_per_site_step Map.empty interfaces"

text \<open>
  The second loop: \<open>hosts\<close> is the set of hosts seen so far, \<open>exception_list\<close> the
  violations appended so far. A key missing from \<^verbatim>\<open>nodes_per_site\<close> raises.
\<close>

fun check_hosts ::
  "(string \<rightharpoonup> nat) \<Rightarrow> interface list \<Rightarrow> string set \<Rightarrow> violation list \<Rightarrow> error + violation list" where
  "check_hosts nps [] hosts exception_list = Inr exception_list"
| "check_hosts nps (i # rest) hosts exception_list =
     (if if_model i = ''NIC_Basic'' then
        (case nps (node_site (if_node i)) of
           None \<Rightarrow> Inl (KeyError (node_site (if_node i)))
         | Some c \<Rightarrow>
             if c > 1 then
               (case node_host (if_node i) of
                  None \<Rightarrow>
                    check_hosts nps rest hosts
                      (exception_list @ [NodeUnbound (node_name (if_node i))])
                | Some h \<Rightarrow>
                    if h \<in> hosts
                    then check_hosts nps rest hosts (exception_list @ [HostShared h])
                    else check_hosts nps rest (insert h hosts) exception_list)
             else check_hosts nps rest hosts exception_list)
      else check_hosts nps rest hosts exception_list)"

text \<open>
  \<^verbatim>\<open>__validate_nstype(type, interfaces)\<close>: \<open>Inr True\<close> is \<^verbatim>\<open>return True\<close>.
\<close>

definition validate_nstype :: "ServiceType option \<Rightarrow> interface list \<Rightarrow> error + bool" where
  "validate_nstype type interfaces =
     (if length interfaces = 0 then Inr True
      else
        let sites = set (map if_site interfaces);
            nics = set (map if_model interfaces)
        in
          if type = Some L2Bridge then
            (if card sites > 1 then Inl (BridgeSites (card sites)) else Inr True)
          else if type = Some L2PTP then
            (if card sites \<noteq> 2 then Inl (PTPSites (card sites))
             else if ''NIC_Basic'' \<in> nics then Inl PTPBasicNIC
             else Inr True)
          else if type = Some L2STS then
            (let exception_list = (if card sites \<noteq> 2 then [SiteCount (card sites)] else [])
             in case (if length interfaces > 2
                      then check_hosts (nodes_per_site interfaces) interfaces {} exception_list
                      else Inr exception_list) of
                  Inl e \<Rightarrow> Inl e
                | Inr exception_list \<Rightarrow>
                    if length exception_list > 0 then Inl (Violations exception_list)
                    else Inr True)
          else Inl (UnknownNetworkType type))"

section \<open>Addresses and subnets\<close>

text \<open>
  An \<^verbatim>\<open>ipaddress\<close> network: its version, the integer of its network address and
  its prefix length. Iterating over the network yields every address from the network
  address up to and including the broadcast address, in ascending order.
\<close>

datatype ipversion = V4 | V6

record ipnet =
  net_version :: ipversion
  net_address :: nat
  prefixlen :: nat

fun max_prefixlen :: "ipversion \<Rightarrow> nat" where
  "max_prefixlen V4 = 32"
| "max_prefixlen V6 = 128"

fun mk_addr :: "ipversion \<Rightarrow> nat \<Rightarrow> ipaddr" where
  "mk_addr V4 x = IPv4Address x"
| "mk_addr V6 x = IPv6Address x"

definition num_addresses :: "ipnet \<Rightarrow> nat" where
  "num_addresses n = 2 ^ (max_prefixlen (net_version n) - prefixlen n)"

definition network_address :: "ipnet \<Rightarrow> ipaddr" where
  "network_address n = mk_addr (net_version n) (net_address n)"

definition broadcast_address :: "ipnet \<Rightarrow> ipaddr" where
  "broadcast_address n = mk_addr (net_version n) (net_address n + num_addresses n - 1)"

definition subnet_iter :: "ipnet \<Rightarrow> ipaddr list" where
  "subnet_iter n =
     map (mk_addr (net_version n)) [net_address n ..< net_address n + num_addresses n]"

text \<open>
  The host range in the words of the specification: the addresses of the subnet other
  than the network address and, for IPv4, the broadcast address.
\<close>

definition host_range :: "ipnet \<Rightarrow> ipaddr set" where
  "host_range n =
     set (filter (\<lambda>a. a \<noteq> network_address n
                    \<and> (if net_version n = V4 then a \<noteq> broadcast_address n else True))
            (subnet_iter n))"

section \<open>The metadata blob\<close>

text \<open>
  The user data of a service is a dictionary kept as JSON text in the
  \<^verbatim>\<open>user_data\<close> property of the FIM object. Its keys are fixed by this module, so
  each dictionary is a record with one optional field per key (\<open>None\<close>: the key is
  absent). Addresses and subnets are stored as their text and parsed back on reading; the
  record holds the value that the text denotes.
\<close>

record subnet_data =
  sd_subnet :: "ipnet option"
  sd_gateway :: "ipaddr option"
  sd_allocated_ips :: "ipaddr list option"

record fablib_data =
  fd_instantiated :: "string option"
  fd_mode :: "string option"
  fd_subnet :: "subnet_data option"

record user_data =
  ud_fablib_data :: "fablib_data option"
  ud_other :: "(string \<times> string) list"

definition empty_subnet_data :: subnet_data where
  "empty_subnet_data = \<lparr>sd_subnet = None, sd_gateway = None, sd_allocated_ips = None\<rparr>"

definition empty_fablib_data :: fablib_data where
  "empty_fablib_data = \<lparr>fd_instantiated = None, fd_mode = None, fd_subnet = None\<rparr>"

definition empty_user_data :: user_data where
  "empty_user_data = \<lparr>ud_fablib_data = None, ud_other = []\<rparr>"

section \<open>The service facade\<close>

text \<open>
  The FIM object of a service, as far as this module reads and writes it: name, type,
  layer, the attached interfaces, the \<^verbatim>\<open>user_data\<close> property (\<open>None\<close> when it is
  unset or does not parse) and whether an explicit route is set.
\<close>

record fim_network_service =
  fim_name :: string
  fim_type :: ServiceType
  fim_layer :: NSLayer
  interface_list :: "interface list"
  fim_user_data :: "user_data option"
  fim_ero :: bool

text \<open>
  The \<^verbatim>\<open>NetworkService\<close> object: its FIM object, the cached list
  \<^verbatim>\<open>self.interfaces\<close>, and what the sliver of the reservation reports (\<open>None\<close> when
  reading it raises).
\<close>

record network_service =
  fim :: fim_network_service
  cached_interfaces :: "interface list option"
  sliver_subnet :: "ipnet option"
  sliver_site :: "string option"

datatype subnet_value = NoSubnet | SubnetName string | Subnet ipnet

definition get_user_data :: "network_service \<Rightarrow> user_data" where
  "get_user_data s = (case fim_user_data (fim s) of None \<Rightarrow> empty_user_data | Some u \<Rightarrow> u)"

definition set_user_data :: "user_data \<Rightarrow> network_service \<Rightarrow> network_service" where
  "set_user_data u s = s\<lparr>fim := (fim s)\<lparr>fim_user_data := Some u\<rparr>\<rparr>"

definition get_fablib_data :: "network_service \<Rightarrow> fablib_data" where
  "get_fablib_data s =
     (case ud_fablib_data (get_user_data s) of None \<Rightarrow> empty_fablib_data | Some d \<Rightarrow> d)"

definition set_fablib_data :: "fablib_data \<Rightarrow> network_service \<Rightarrow> network_service" where
  "set_fablib_data d s = set_user_data ((get_user_data s)\<lparr>ud_fablib_data := Some d\<rparr>) s"

definition init_fablib_data :: "network_service \<Rightarrow> network_service" where
  "init_fablib_data s =
     set_fablib_data \<lparr>fd_instantiated = Some ''False'', fd_mode = Some ''manual'',
                      fd_subnet = None\<rparr> s"

definition is_instantiated :: "network_service \<Rightarrow> bool" where
  "is_instantiated s = (fd_instantiated (get_fablib_data s) = Some ''True'')"

definition get_type :: "network_service \<Rightarrow> ServiceType" where
  "get_type s = fim_type (fim s)"

definition get_layer :: "network_service \<Rightarrow> NSLayer" where
  "get_layer s = fim_layer (fim s)"

definition get_name :: "network_service \<Rightarrow> string" where
  "get_name s = fim_name (fim s)"

definition get_site :: "network_service \<Rightarrow> string option" where
  "get_site s = sliver_site s"

definition get_subnet :: "network_service \<Rightarrow> subnet_value" where
  "get_subnet s =
     (if is_instantiated s then
        (if get_layer s = L3 then
           (case sliver_subnet s of None \<Rightarrow> NoSubnet | Some n \<Rightarrow> Subnet n)
         else
           (case fd_subnet (get_fablib_data s) of
              None \<Rightarrow> NoSubnet
            | Some sd \<Rightarrow> (case sd_subnet sd of None \<Rightarrow> NoSubnet | Some n \<Rightarrow> Subnet n)))
      else SubnetName (get_name s @ ''.subnet''))"

definition set_subnet :: "ipnet \<Rightarrow> network_service \<Rightarrow> network_service" where
  "set_subnet subnet s =
     (let fablib_data = get_fablib_data s;
          sd = (case fd_subnet fablib_data of None \<Rightarrow> empty_subnet_data | Some sd \<Rightarrow> sd)
      in set_fablib_data
           (fablib_data\<lparr>fd_subnet := Some (sd\<lparr>sd_subnet := Some subnet,
                                                sd_allocated_ips := Some []\<rparr>)\<rparr>) s)"

definition set_gateway :: "ipaddr \<Rightarrow> network_service \<Rightarrow> network_service" where
  "set_gateway gateway s =
     (let fablib_data = get_fablib_data s;
          sd = (case fd_subnet fablib_data of None \<Rightarrow> empty_subnet_data | Some sd \<Rightarrow> sd)
      in set_fablib_data (fablib_data\<lparr>fd_subnet := Some (sd\<lparr>sd_gateway := Some gateway\<rparr>)\<rparr>) s)"

definition get_allocated_ips :: "network_service \<Rightarrow> ipaddr list" where
  "get_allocated_ips s =
     (case fd_subnet (get_fablib_data s) of
        None \<Rightarrow> []
      | Some sd \<Rightarrow> (case sd_allocated_ips sd of None \<Rightarrow> [] | Some ips \<Rightarrow> ips))"

text \<open>
  The list under \<^verbatim>\<open>fablib_data["subnet"]["allocated_ips"]\<close> as it is persisted:
  \<open>None\<close> when one of the two keys is missing.
\<close>

definition stored_allocated_ips :: "network_service \<Rightarrow> ipaddr list option" where
  "stored_allocated_ips s =
     (case fd_subnet (get_fablib_data s) of None \<Rightarrow> None | Some sd \<Rightarrow> sd_allocated_ips sd)"

text \<open>
  \<^verbatim>\<open>set_allocated_ip\<close> creates an empty \<^verbatim>\<open>"subnet"\<close> dictionary when there is
  none, and then reads its \<^verbatim>\<open>"allocated_ips"\<close> key: a missing key raises.
\<close>

definition set_allocated_ip :: "ipaddr \<Rightarrow> network_service \<Rightarrow> error + network_service" where
  "set_allocated_ip addr s =
     (let fablib_data = get_fablib_data s;
          sd = (case fd_subnet fablib_data of None \<Rightarrow> empty_subnet_data | Some sd \<Rightarrow> sd)
      in case sd_allocated_ips sd of
           None \<Rightarrow> Inl (KeyError ''allocated_ips'')
         | Some allocated_ips \<Rightarrow>
             Inr (set_fablib_data
                    (fablib_data\<lparr>fd_subnet :=
                       Some (sd\<lparr>sd_allocated_ips := Some (allocated_ips @ [addr])\<rparr>)\<rparr>) s))"

definition set_allocated_ips :: "ipaddr list \<Rightarrow> network_service \<Rightarrow> network_service" where
  "set_allocated_ips allocated_ips s =
     (let fablib_data = get_fablib_data s;
          sd = (case fd_subnet fablib_data of None \<Rightarrow> empty_subnet_data | Some sd \<Rightarrow> sd)
      in set_fablib_data
           (fablib_data\<lparr>fd_subnet := Some (sd\<lparr>sd_allocated_ips := Some allocated_ips\<rparr>)\<rparr>) s)"

text \<open>
  The loop of \<^verbatim>\<open>allocate_ip\<close> over the subnet: the first host that is neither the
  network address nor allocated.
\<close>

fun scan_subnet :: "ipaddr list \<Rightarrow> ipaddr \<Rightarrow> ipaddr list \<Rightarrow> ipaddr option" where
  "scan_subnet [] na allocated_ips = None"
| "scan_subnet (host # rest) na allocated_ips =
     (if host \<noteq> na \<and> host \<notin> set allocated_ips then Some host
      else scan_subnet rest na allocated_ips)"

text \<open>
  \<^verbatim>\<open>allocate_ip(addr)\<close>: the result is the returned address (\<open>None\<close> for
  \<^verbatim>\<open>return None\<close>) and the service after the call. The lock is taken and released
  around the body and has no effect on a single caller.
\<close>

definition allocate_ip ::
  "ipaddr option \<Rightarrow> network_service \<Rightarrow> error + (ipaddr option \<times> network_service)" where
  "allocate_ip addr s =
     (let subnet = get_subnet s;
          allocated_ips = get_allocated_ips s
      in case addr of
           Some a \<Rightarrow>
             if a \<notin> set allocated_ips then
               (case set_allocated_ip a s of
                  Inl e \<Rightarrow> Inl e
                | Inr s' \<Rightarrow> Inr (Some a, s'))
             else Inr (None, s)
         | None \<Rightarrow>
             (case subnet of
                Subnet n \<Rightarrow>
                  (case scan_subnet (subnet_iter n) (network_address n) allocated_ips of
                     Some host \<Rightarrow>
                       (case set_allocated_ip host s of
                          Inl e \<Rightarrow> Inl e
                        | Inr s' \<Rightarrow> Inr (Some host, s'))
                   | None \<Rightarrow> Inr (None, s))
              | _ \<Rightarrow> Inr (None, s)))"

definition free_ip :: "ipaddr option \<Rightarrow> network_service \<Rightarrow> network_service" where
  "free_ip addr s =
     (let allocated_ips = get_allocated_ips s;
          allocated_ips' =
            (case addr of
               None \<Rightarrow> allocated_ips
             | Some a \<Rightarrow> if a \<in> set allocated_ips then remove1 a allocated_ips
                         else allocated_ips)
      in set_allocated_ips allocated_ips' s)"





fun allocate_n ::
  "nat \<Rightarrow> network_service \<Rightarrow> error + (ipaddr option list \<times> network_service)" where
  "allocate_n 0 s = Inr ([], s)"
| "allocate_n (Suc k) s =
     (case allocate_ip None s of
        Inl e \<Rightarrow> Inl e
      | Inr (r, s') \<Rightarrow>
          (case allocate_n k s' of
             Inl e \<Rightarrow> Inl e
           | Inr (rs, s'') \<Rightarrow> Inr (r # rs, s'')))"

section \<open>Interface mutation and type migration\<close>

text \<open>
  \<^verbatim>\<open>get_interfaces()\<close> returns the cached list, which it first rebuilds from the FIM
  object when the cache is \<^verbatim>\<open>None\<close> or empty. Every attached interface is taken to
  be found in the slice.
\<close>

definition get_interfaces :: "network_service \<Rightarrow> interface list \<times> network_service" where
  "get_interfaces s =
     (case cached_interfaces s of
        Some (x # xs) \<Rightarrow> (x # xs, s)
      | _ \<Rightarrow> (interface_list (fim s),
               s\<lparr>cached_interfaces := Some (interface_list (fim s))\<rparr>))"

text \<open>
  The topology store: connecting appends an interface to the FIM object, disconnecting
  removes it (and leaves an object that does not hold it as it is), and
  \<^verbatim>\<open>add_network_service\<close> makes a new object of the given type with the given
  interfaces, no user data and no explicit route. The layer of the new object follows its
  type, as \<^verbatim>\<open>fim_l2network_service_types\<close> and \<^verbatim>\<open>fim_l3network_service_types\<close>
  class it.
\<close>

definition connect_interface :: "interface \<Rightarrow> network_service \<Rightarrow> network_service" where
  "connect_interface i s = s\<lparr>fim := (fim s)\<lparr>interface_list := interface_list (fim s) @ [i]\<rparr>\<rparr>"

definition disconnect_interface :: "interface \<Rightarrow> network_service \<Rightarrow> network_service" where
  "disconnect_interface i s =
     s\<lparr>fim := (fim s)\<lparr>interface_list := remove1 i (interface_list (fim s))\<rparr>\<rparr>"

fun layer_of :: "ServiceType \<Rightarrow> NSLayer" where
  "layer_of L2Bridge = L2"
| "layer_of L2PTP = L2"
| "layer_of L2STS = L2"
| "layer_of PortMirror = L2"
| "layer_of FABNetv4 = L3"
| "layer_of FABNetv6 = L3"
| "layer_of FABNetv4Ext = L3"
| "layer_of FABNetv6Ext = L3"
| "layer_of L3VPN = L3"

definition add_network_service ::
  "string \<Rightarrow> ServiceType \<Rightarrow> interface list \<Rightarrow> fim_network_service" where
  "add_network_service name nstype interfaces =
     \<lparr>fim_name = name, fim_type = nstype, fim_layer = layer_of nstype,
      interface_list = interfaces, fim_user_data = None, fim_ero = False\<rparr>"

text \<open>
  \<^verbatim>\<open>__replace_network_service(nstype)\<close>: detach every interface, keep the user data,
  replace the FIM object by a new one of type \<open>nstype\<close> with the same name and the
  interfaces of \<^verbatim>\<open>get_interfaces()\<close>, and write the user data back.
\<close>

definition replace_network_service :: "ServiceType \<Rightarrow> network_service \<Rightarrow> network_service" where
  "replace_network_service nstype s =
     (let name = get_name s;
          (interfaces, s1) = get_interfaces s;
          s2 = foldl (\<lambda>t i. disconnect_interface i t) s1 interfaces;
          user_data = get_user_data s2;
          s3 = s2\<lparr>fim := add_network_service name nstype interfaces\<rparr>
      in set_user_data user_data s3)"

text \<open>
  The part of \<^verbatim>\<open>add_interface\<close> and \<^verbatim>\<open>remove_interface\<close> that re-evaluates the type
  of an L2 service. A resolver result without a type cannot be given to the topology
  store.
\<close>

definition retype ::
  "interface list \<Rightarrow> (network_service \<Rightarrow> network_service) \<Rightarrow> network_service
     \<Rightarrow> error + network_service" where
  "retype interfaces same s =
     (let curr_nstype = get_type s;
          ero_enabled = fim_ero (fim s)
      in case calculate_l2_nstype interfaces ero_enabled of
           Inl e \<Rightarrow> Inl e
         | Inr new_nstype \<Rightarrow>
             if Some curr_nstype \<noteq> new_nstype then
               (case new_nstype of
                  None \<Rightarrow> Inl NoServiceType
                | Some t \<Rightarrow> Inr (replace_network_service t s))
             else Inr (same s))"

text \<open>
  \<^verbatim>\<open>add_interface\<close> up to and including the type check: the guard for PortMirror, the
  append to the list of \<^verbatim>\<open>get_interfaces()\<close> (which is the cached list itself), and
  the re-evaluation of the type for L2 or the site check for an instantiated L3 service.
\<close>

definition add_interface_attach :: "interface \<Rightarrow> network_service \<Rightarrow> error + network_service" where
  "add_interface_attach i s =
     (if get_type s = PortMirror then Inl PortMirrorAttach
      else
        let (interfaces, s1) = get_interfaces s;
            new_interfaces = interfaces @ [i];
            s2 = s1\<lparr>cached_interfaces := Some new_interfaces\<rparr>
        in if get_layer s2 = L2 then retype new_interfaces (connect_interface i) s2
           else if get_layer s2 = L3 \<and> is_instantiated s2 then
             (if Some (if_site i) \<noteq> get_site s2 then Inl L3OneSite else Inr s2)
           else Inr s2)"

text \<open>
  The rest of \<^verbatim>\<open>add_interface\<close>: with a subnet (anything but \<^verbatim>\<open>None\<close>), allocate
  the address that the interface asks for, or the next free one when it asks for
  \<^verbatim>\<open>auto\<close>; an L3 service connects the interface last.
\<close>

definition add_interface_address :: "interface \<Rightarrow> network_service \<Rightarrow> error + network_service" where
  "add_interface_address i s =
     (case (if get_subnet s \<noteq> NoSubnet then
              (case if_data_addr i of
                 Some addr \<Rightarrow> allocate_ip (Some addr) s
               | None \<Rightarrow> if if_data_auto i then allocate_ip None s else Inr (None, s))
            else Inr (None, s)) of
        Inl e \<Rightarrow> Inl e
      | Inr (r, s') \<Rightarrow>
          Inr (if get_layer s' = L3 then connect_interface i s' else s'))"

definition add_interface :: "interface \<Rightarrow> network_service \<Rightarrow> error + network_service" where
  "add_interface i s =
     (case add_interface_attach i s of
        Inl e \<Rightarrow> Inl e
      | Inr s' \<Rightarrow> add_interface_address i s')"

definition remove_interface :: "interface \<Rightarrow> network_service \<Rightarrow> error + network_service" where
  "remove_interface i s =
     (let s1 = free_ip (if_ip_addr i) s;
          (interfaces, s2) = get_interfaces s1;
          interfaces' = (if i \<in> set interfaces then remove1 i interfaces else interfaces);
          s3 = s2\<lparr>cached_interfaces := Some interfaces'\<rparr>
      in case (if get_layer s3 = L2 then retype interfaces' (\<lambda>t. t) s3 else Inr s3) of
           Inl e \<Rightarrow> Inl e
         | Inr s4 \<Rightarrow> Inr (disconnect_interface i s4))"

section \<open>The L2 factory\<close>

definition fim_l2network_service_types :: "string list" where
  "fim_l2network_service_types = [''L2Bridge'', ''L2PTP'', ''L2STS'']"

definition network_service_map :: "string \<rightharpoonup> ServiceType" where
  "network_service_map =
     [''L2Bridge'' \<mapsto> L2Bridge, ''L2PTP'' \<mapsto> L2PTP, ''L2STS'' \<mapsto> L2STS,
      ''PortMirror'' \<mapsto> PortMirror, ''FABNetv4'' \<mapsto> FABNetv4, ''FABNetv6'' \<mapsto> FABNetv6,
      ''FABNetv4Ext'' \<mapsto> FABNetv4Ext, ''FABNetv6Ext'' \<mapsto> FABNetv6Ext, ''L3VPN'' \<mapsto> L3VPN]"

text \<open>
  The default VLANs of \<^verbatim>\<open>new_l2network\<close>: it reads \<^verbatim>\<open>interfaces[0]\<close> and
  \<^verbatim>\<open>interfaces[1]\<close>, and sets the tag of the one or of both.
\<close>

fun pair_vlans :: "interface list \<Rightarrow> error + interface list" where
  "pair_vlans (i0 # i1 # rest) =
     (case (if_vlan i0, if_vlan i1) of
        (None, None) \<Rightarrow>
          Inr (i0\<lparr>if_vlan := Some ''100''\<rparr> # i1\<lparr>if_vlan := Some ''100''\<rparr> # rest)
      | (None, Some vlan2) \<Rightarrow> Inr (i0\<lparr>if_vlan := Some vlan2\<rparr> # i1 # rest)
      | (Some vlan1, None) \<Rightarrow> Inr (i0 # i1\<lparr>if_vlan := Some vlan1\<rparr> # rest)
      | (Some vlan1, Some vlan2) \<Rightarrow> Inr (i0 # i1 # rest))"
| "pair_vlans _ = Inl IndexError"

text \<open>
  \<^verbatim>\<open>__new_network_service\<close> for an L2 service: a new FIM object, a facade with no cached
  interfaces and no sliver, the user data of the caller and the initial fablib data.
\<close>

definition new_network_service ::
  "string \<Rightarrow> ServiceType option \<Rightarrow> interface list \<Rightarrow> user_data \<Rightarrow> error + network_service" where
  "new_network_service name nstype interfaces ud =
     (case nstype of
        None \<Rightarrow> Inl NoServiceType
      | Some t \<Rightarrow>
          Inr (init_fablib_data
                 (set_user_data ud
                    \<lparr>fim = add_network_service name t interfaces, cached_interfaces = None,
                     sliver_subnet = None, sliver_site = None\<rparr>)))"

definition new_l2network ::
  "string \<Rightarrow> interface list \<Rightarrow> string option \<Rightarrow> user_data \<Rightarrow> error + network_service" where
  "new_l2network name interfaces type ud =
     (case (case type of
              None \<Rightarrow> calculate_l2_nstype interfaces False
            | Some t \<Rightarrow>
                if t \<in> set fim_l2network_service_types then Inr (network_service_map t)
                else Inl (InvalidL2Type t)) of
        Inl e \<Rightarrow> Inl e
      | Inr nstype \<Rightarrow>
          (case validate_nstype nstype interfaces of
             Inl e \<Rightarrow> Inl e
           | Inr ok \<Rightarrow>
               (case (if nstype = Some L2PTP \<and> length interfaces \<noteq> 0
                      then pair_vlans interfaces else Inr interfaces) of
                  Inl e \<Rightarrow> Inl e
                | Inr interfaces' \<Rightarrow> new_network_service name nstype interfaces' ud)))"

text \<open>
  The invariant of the allocator calls: the subnet stays \<open>sub\<close>, the persisted list
  exists and has no duplicates, and each of its addresses is in \<open>R\<close> or is an address
  of the subnet other than the network address.
\<close>

definition alloc_inv :: "ipaddr set \<Rightarrow> subnet_value \<Rightarrow> network_service \<Rightarrow> bool" where
  "alloc_inv R sub s \<longleftrightarrow>
     get_subnet s = sub \<and>
     (\<exists>ips. stored_allocated_ips s = Some ips \<and> distinct ips
        \<and> (\<forall>a\<in>set ips. a \<in> R \<or> (\<exists>n. sub = Subnet n \<and> a \<in> set (subnet_iter n)
                                      \<and> a \<noteq> network_address n)))"

section \<open>Example inputs\<close>

definition ex_node1 :: node where
  "ex_node1 = \<lparr>node_name = ''n1'', node_site = ''RENC'', node_host = None,
               facility_port = False\<rparr>"

definition ex_node2 :: node where
  "ex_node2 = \<lparr>node_name = ''n2'', node_site = ''RENC'', node_host = None,
               facility_port = False\<rparr>"

definition ex_node3 :: node where
  "ex_node3 = \<lparr>node_name = ''n3'', node_site = ''UKY'', node_host = None,
               facility_port = False\<rparr>"

definition ex_node4 :: node where
  "ex_node4 = \<lparr>node_name = ''n4'', node_site = ''TACC'', node_host = None,
               facility_port = False\<rparr>"

definition ex_port :: node where
  "ex_port = \<lparr>node_name = ''fp'', node_site = ''UKY'', node_host = None,
              facility_port = True\<rparr>"

definition ex_iface :: "string \<Rightarrow> node \<Rightarrow> string \<Rightarrow> interface" where
  "ex_iface name nd model =
     \<lparr>if_name = name, if_site = node_site nd, if_node = nd, if_model = model,
      if_vlan = None, if_ip_addr = None, if_data_addr = None, if_data_auto = False\<rparr>"

definition ex_basic1 :: interface where
  "ex_basic1 = ex_iface ''n1-nic-p1'' ex_node1 ''NIC_Basic''"

definition ex_basic2 :: interface where
  "ex_basic2 = ex_iface ''n2-nic-p1'' ex_node2 ''NIC_Basic''"

definition ex_cx1 :: interface where
  "ex_cx1 = ex_iface ''n1-cx-p1'' ex_node1 ''NIC_ConnectX_6''"

definition ex_cx3 :: interface where
  "ex_cx3 = ex_iface ''n3-cx-p1'' ex_node3 ''NIC_ConnectX_6''"

definition ex_cx4 :: interface where
  "ex_cx4 = ex_iface ''n4-cx-p1'' ex_node4 ''NIC_ConnectX_6''"

definition ex_fp :: interface where
  "ex_fp = ex_iface ''fp-int'' ex_port ''Facility''"

definition ex_net :: ipnet where
  "ex_net = \<lparr>net_version = V4, net_address = 8, prefixlen = 30\<rparr>"

definition ex_fablib_data :: fablib_data where
  "ex_fablib_data = \<lparr>fd_instantiated = Some ''True'', fd_mode = Some ''manual'',
                     fd_subnet = None\<rparr>"

definition ex_service :: "ServiceType \<Rightarrow> interface list \<Rightarrow> network_service" where
  "ex_service t interfaces =
     \<lparr>fim = \<lparr>fim_name = ''net1'', fim_type = t, fim_layer = L2,
              interface_list = interfaces,
              fim_user_data = Some \<lparr>ud_fablib_data = Some ex_fablib_data, ud_other = []\<rparr>,
              fim_ero = False\<rparr>,
      cached_interfaces = None, sliver_subnet = None, sliver_site = None\<rparr>"

definition ex_subnet_service :: network_service where
  "ex_subnet_service = set_subnet ex_net (ex_service L2Bridge [])"

lemmas ex_defs =
  ex_node1_def ex_node2_def ex_node3_def ex_node4_def ex_port_def ex_iface_def
  ex_basic1_def ex_basic2_def ex_cx1_def ex_cx3_def ex_cx4_def ex_fp_def

lemmas ex_service_defs = ex_net_def ex_fablib_data_def ex_service_def ex_subnet_service_def

section \<open>Properties of the resolver\<close>

lemma foldl_calculate_step:
  "foldl calculate_step (S, b, f, n) xs =
     (S \<union> set (map if_site xs),
      b \<or> (\<exists>x\<in>set xs. facility_port (if_node x)),
      f + length (filter (\<lambda>x. facility_port (if_node x)) xs),
      n + length (filter (\<lambda>x. if_model x = ''NIC_Basic'') xs))"
  by (induction xs arbitrary: S b f n) auto

lemma calculate_l2_nstype_eq:
  "calculate_l2_nstype interfaces ero_enabled =
     (let sites = set (map if_site interfaces);
          fp = length (filter (\<lambda>x. facility_port (if_node x)) interfaces);
          basic = length (filter (\<lambda>x. if_model x = ''NIC_Basic'') interfaces)
      in if card sites \<le> 1 then Inr (Some L2Bridge)
         else if card sites = 2 then
           (if ((0 < fp \<and> fp < 2) \<or> ero_enabled) \<and> basic = 0 then Inr (Some L2PTP)
            else if length interfaces \<ge> 2 then Inr (Some L2STS) else Inr None)
         else Inl TooManySites)"
proof -
  have "(\<exists>x\<in>set interfaces. facility_port (if_node x))
      \<longleftrightarrow> 0 < length (filter (\<lambda>x. facility_port (if_node x)) interfaces)"
    by (simp add: filter_empty_conv)
  then show ?thesis
    unfolding calculate_l2_nstype_def foldl_calculate_step
    by (simp add: Let_def)
qed

lemma card_sites_le_length: "card (set (map if_site interfaces)) \<le> length interfaces"
  by (metis card_length length_map)

text \<open>
  C1, as stated, fails: two interfaces at two sites, neither on a facility port, no
  NIC_Basic and no explicit route give fewer than two facility interfaces, and the
  resolver returns L2STS, not L2PTP.
\<close>

theorem C1_counterexample:
  "card (set (map if_site [ex_cx1, ex_cx3])) = 2
   \<and> length (filter (\<lambda>x. if_model x = ''NIC_Basic'') [ex_cx1, ex_cx3]) = 0
   \<and> length (filter (\<lambda>x. facility_port (if_node x)) [ex_cx1, ex_cx3]) < 2
   \<and> calculate_l2_nstype [ex_cx1, ex_cx3] False = Inr (Some L2STS)"
  by (simp add: calculate_l2_nstype_eq ex_defs)

text \<open>
  C1, amended: for every interface list that spans exactly two sites, the resolver returns
  L2PTP when there is no NIC_Basic interface and either an explicit route is requested or
  exactly one interface is on a facility port; in every other case it returns L2STS (two
  sites imply at least two interfaces).
\<close>

theorem C1_two_sites:
  assumes "card (set (map if_site interfaces)) = 2"
  shows "calculate_l2_nstype interfaces ero_enabled =
     Inr (Some (if (length (filter (\<lambda>x. facility_port (if_node x)) interfaces) = 1
                     \<or> ero_enabled)
                  \<and> length (filter (\<lambda>x. if_model x = ''NIC_Basic'') interfaces) = 0
                then L2PTP else L2STS))"
proof -
  have "2 \<le> length interfaces"
    using assms card_sites_le_length[of interfaces] by simp
  moreover have "\<And>k::nat. (0 < k \<and> k < 2) = (k = 1)" by auto
  ultimately show ?thesis
    using assms unfolding calculate_l2_nstype_eq by (auto simp: Let_def dest: less_2_cases)
qed

theorem C1_two_sites_witness:
  "card (set (map if_site [ex_cx1, ex_fp])) = 2
   \<and> calculate_l2_nstype [ex_cx1, ex_fp] False = Inr (Some L2PTP)
   \<and> calculate_l2_nstype [ex_cx1, ex_cx3] True = Inr (Some L2PTP)
   \<and> calculate_l2_nstype [ex_basic1, ex_fp] True = Inr (Some L2STS)"
proof -
  have h1: "card (set (map if_site [ex_cx1, ex_fp])) = 2" by (simp add: ex_defs)
  have h2: "card (set (map if_site [ex_cx1, ex_cx3])) = 2" by (simp add: ex_defs)
  have h3: "card (set (map if_site [ex_basic1, ex_fp])) = 2" by (simp add: ex_defs)
  show ?thesis
    using h1 C1_two_sites[OF h1, of False] C1_two_sites[OF h2, of True]
      C1_two_sites[OF h3, of True]
    by (simp add: ex_defs)
qed

text \<open>
  C5: the resolver raises exactly when the interfaces span more than two distinct sites.
\<close>

theorem C5_raises_iff_more_than_two_sites:
  "(\<exists>e. calculate_l2_nstype interfaces ero_enabled = Inl e)
     = (card (set (map if_site interfaces)) > 2)"
  unfolding calculate_l2_nstype_eq by (auto simp: Let_def)

theorem C5_raises_iff_more_than_two_sites_witness:
  "(\<exists>e. calculate_l2_nstype [ex_cx1, ex_cx3, ex_cx4] False = Inl e)
   \<and> \<not> (\<exists>e. calculate_l2_nstype [ex_cx1, ex_cx3] False = Inl e)"
  using C5_raises_iff_more_than_two_sites[of "[ex_cx1, ex_cx3, ex_cx4]" False]
    C5_raises_iff_more_than_two_sites[of "[ex_cx1, ex_cx3]" False]
  by (simp add: ex_defs)

section \<open>Properties of the validator\<close>

text \<open>
  C8, as stated, fails: with no interfaces the validator returns before it looks at the
  type, so a type outside the L2 types validates.
\<close>

theorem C8_counterexample: "validate_nstype (Some PortMirror) [] = Inr True"
  by (simp add: validate_nstype_def)

text \<open>
  C8, amended: for every type outside L2Bridge, L2PTP and L2STS and every non-empty
  interface list the validator raises "Unknown network type"; an empty interface list
  validates for every type.
\<close>

theorem C8_unknown_type:
  "(type \<notin> {Some L2Bridge, Some L2PTP, Some L2STS} \<and> interfaces \<noteq> []
      \<longrightarrow> validate_nstype type interfaces = Inl (UnknownNetworkType type))
   \<and> validate_nstype type [] = Inr True"
  by (simp add: validate_nstype_def Let_def)

theorem C8_unknown_type_witness:
  "Some FABNetv4 \<notin> {Some L2Bridge, Some L2PTP, Some L2STS} \<and> [ex_cx1] \<noteq> []
   \<and> validate_nstype (Some FABNetv4) [ex_cx1] = Inl (UnknownNetworkType (Some FABNetv4))
   \<and> validate_nstype None [ex_cx1] = Inl (UnknownNetworkType None)"
  using C8_unknown_type[of "Some FABNetv4" "[ex_cx1]"] C8_unknown_type[of None "[ex_cx1]"]
  by simp

lemma foldl_nodes_per_site_step:
  "foldl nodes_per_site_step m xs site =
     (if site \<in> set (map (\<lambda>i. node_site (if_node i)) xs)
      then Some ((case m site of None \<Rightarrow> 0 | Some c \<Rightarrow> c)
             + length (filter (\<lambda>i. \<not> facility_port (if_node i) \<and> node_site (if_node i) = site) xs))
      else m site)"
proof (induction xs arbitrary: m)
  case Nil
  then show ?case by simp
next
  case (Cons x xs)
  show ?case
    unfolding foldl_Cons Cons.IH
    by (auto simp: nodes_per_site_step_def Let_def filter_empty_conv rev_image_eqI
          split: option.splits)
qed

lemma nodes_per_site_eq:
  "nodes_per_site xs site =
     (if site \<in> set (map (\<lambda>i. node_site (if_node i)) xs)
      then Some (length (filter (\<lambda>i. \<not> facility_port (if_node i) \<and> node_site (if_node i) = site) xs))
      else None)"
  unfolding nodes_per_site_def foldl_nodes_per_site_step by simp

lemma check_hosts_total:
  "\<forall>i\<in>set xs. nps (node_site (if_node i)) \<noteq> None \<Longrightarrow>
     \<exists>errs. check_hosts nps xs hosts exs = Inr errs"
  by (induction nps xs hosts exs rule: check_hosts.induct) (auto split: option.splits)

lemma check_hosts_mono:
  "check_hosts nps xs hosts exs = Inr errs \<Longrightarrow> set exs \<subseteq> set errs"
  by (induction nps xs hosts exs rule: check_hosts.induct)
     (auto split: option.splits if_splits)

lemma check_hosts_unbound:
  "check_hosts nps xs hosts exs = Inr errs \<Longrightarrow> i \<in> set xs \<Longrightarrow>
   if_model i = ''NIC_Basic'' \<Longrightarrow> nps (node_site (if_node i)) = Some c \<Longrightarrow> c > 1 \<Longrightarrow>
   node_host (if_node i) = None \<Longrightarrow> NodeUnbound (node_name (if_node i)) \<in> set errs"
proof (induction nps xs hosts exs rule: check_hosts.induct)
  case (1 nps hosts exception_list)
  then show ?case by simp
next
  case (2 nps x rest hosts exception_list)
  show ?case
  proof (cases "i = x")
    case True
    with 2 have "check_hosts nps rest hosts
        (exception_list @ [NodeUnbound (node_name (if_node i))]) = Inr errs"
      by simp
    from check_hosts_mono[OF this] show ?thesis by simp
  next
    case False
    with 2 show ?thesis
      by (auto split: option.splits if_splits)
  qed
qed

lemma check_hosts_seen:
  "check_hosts nps xs hosts exs = Inr errs \<Longrightarrow> i \<in> set xs \<Longrightarrow>
   if_model i = ''NIC_Basic'' \<Longrightarrow> nps (node_site (if_node i)) = Some c \<Longrightarrow> c > 1 \<Longrightarrow>
   node_host (if_node i) = Some h \<Longrightarrow> h \<in> hosts \<Longrightarrow> HostShared h \<in> set errs"
proof (induction nps xs hosts exs rule: check_hosts.induct)
  case (1 nps hosts exception_list)
  then show ?case by simp
next
  case (2 nps x rest hosts exception_list)
  show ?case
  proof (cases "i = x")
    case True
    with 2 have "check_hosts nps rest hosts (exception_list @ [HostShared h]) = Inr errs"
      by simp
    from check_hosts_mono[OF this] show ?thesis by simp
  next
    case False
    with 2 show ?thesis
      by (auto split: option.splits if_splits)
  qed
qed

lemma check_hosts_pair:
  "check_hosts nps xs hosts exs = Inr errs \<Longrightarrow> p < q \<Longrightarrow> q < length xs \<Longrightarrow>
   if_model (xs ! p) = ''NIC_Basic'' \<Longrightarrow> nps (node_site (if_node (xs ! p))) = Some c \<Longrightarrow> c > 1 \<Longrightarrow>
   node_host (if_node (xs ! p)) = Some h \<Longrightarrow>
   if_model (xs ! q) = ''NIC_Basic'' \<Longrightarrow> nps (node_site (if_node (xs ! q))) = Some d \<Longrightarrow> d > 1 \<Longrightarrow>
   node_host (if_node (xs ! q)) = Some h \<Longrightarrow> HostShared h \<in> set errs"
proof (induction nps xs hosts exs arbitrary: p q rule: check_hosts.induct)
  case (1 nps hosts exception_list)
  then show ?case by simp
next
  case (2 nps x rest hosts exception_list)
  from "2.prems" obtain q' where q: "q = Suc q'" "q' < length rest"
    by (cases q) auto
  have qin: "rest ! q' \<in> set rest" using q by simp
  show ?case
  proof (cases p)
    case 0
    show ?thesis
    proof (cases "h \<in> hosts")
      case True
      with 0 "2.prems" have "check_hosts nps rest hosts (exception_list @ [HostShared h]) = Inr errs"
        by simp
      from check_hosts_mono[OF this] show ?thesis by simp
    next
      case False
      with 0 "2.prems" have "check_hosts nps rest (insert h hosts) exception_list = Inr errs"
        by simp
      from check_hosts_seen[OF this qin, of d h] "2.prems" q show ?thesis by simp
    qed
  next
    case (Suc p')
    with "2.prems" q show ?thesis
      using "2.IH"
      by (auto split: option.splits if_splits)
  qed
qed

lemma two_distinct_filter:
  assumes "j \<in> set xs" "k \<in> set xs" "j \<noteq> k" "P j" "P k"
  shows "1 < length (filter P xs)"
proof -
  have "{j, k} \<subseteq> set (filter P xs)" using assms by simp
  then have "card {j, k} \<le> card (set (filter P xs))"
    by (intro card_mono) auto
  also have "\<dots> \<le> length (filter P xs)" by (rule card_length)
  finally show ?thesis using assms(3) by simp
qed

lemma validate_L2STS_collects:
  assumes len: "length interfaces > 2"
  shows "\<exists>errs.
     validate_nstype (Some L2STS) interfaces = (if errs = [] then Inr True else Inl (Violations errs))
   \<and> (card (set (map if_site interfaces)) \<noteq> 2 \<longrightarrow>
          SiteCount (card (set (map if_site interfaces))) \<in> set errs)
   \<and> (\<forall>i\<in>set interfaces.
          if_model i = ''NIC_Basic'' \<and> node_host (if_node i) = None \<and>
          (\<exists>j\<in>set interfaces. \<exists>k\<in>set interfaces. if_node j \<noteq> if_node k
              \<and> \<not> facility_port (if_node j) \<and> \<not> facility_port (if_node k)
              \<and> node_site (if_node j) = node_site (if_node i)
              \<and> node_site (if_node k) = node_site (if_node i))
          \<longrightarrow> NodeUnbound (node_name (if_node i)) \<in> set errs)
   \<and> (\<forall>p q h. p < q \<and> q < length interfaces
          \<and> if_model (interfaces ! p) = ''NIC_Basic'' \<and> if_model (interfaces ! q) = ''NIC_Basic''
          \<and> node_host (if_node (interfaces ! p)) = Some h
          \<and> node_host (if_node (interfaces ! q)) = Some h
          \<and> if_node (interfaces ! p) \<noteq> if_node (interfaces ! q)
          \<and> \<not> facility_port (if_node (interfaces ! p)) \<and> \<not> facility_port (if_node (interfaces ! q))
          \<and> node_site (if_node (interfaces ! p)) = node_site (if_node (interfaces ! q))
          \<longrightarrow> HostShared h \<in> set errs)"
proof -
  let ?nps = "nodes_per_site interfaces"
  let ?exs = "if card (set (map if_site interfaces)) \<noteq> 2
              then [SiteCount (card (set (map if_site interfaces)))] else []"
  have defd: "\<forall>i\<in>set interfaces. ?nps (node_site (if_node i)) \<noteq> None"
    by (simp add: nodes_per_site_eq)
  from check_hosts_total[OF defd] obtain errs
    where errs: "check_hosts ?nps interfaces {} ?exs = Inr errs" by blast
  have crowded: "1 < c" if "i \<in> set interfaces" "j \<in> set interfaces" "k \<in> set interfaces"
      "if_node j \<noteq> if_node k" "\<not> facility_port (if_node j)" "\<not> facility_port (if_node k)"
      "node_site (if_node j) = node_site (if_node i)" "node_site (if_node k) = node_site (if_node i)"
      "?nps (node_site (if_node i)) = Some c" for i j k c
  proof -
    have "j \<noteq> k" using that(4) by auto
    from two_distinct_filter[OF that(2) that(3) this,
        of "\<lambda>x. \<not> facility_port (if_node x) \<and> node_site (if_node x) = node_site (if_node i)"]
    show ?thesis using that by (simp add: nodes_per_site_eq split: if_splits)
  qed
  have val: "validate_nstype (Some L2STS) interfaces =
      (if errs = [] then Inr True else Inl (Violations errs))"
    using len errs by (auto simp: validate_nstype_def Let_def)
  have site: "card (set (map if_site interfaces)) \<noteq> 2 \<longrightarrow>
          SiteCount (card (set (map if_site interfaces))) \<in> set errs"
    using check_hosts_mono[OF errs] by auto
  have unb: "NodeUnbound (node_name (if_node i)) \<in> set errs"
    if "i \<in> set interfaces" "if_model i = ''NIC_Basic''" "node_host (if_node i) = None"
       "j \<in> set interfaces" "k \<in> set interfaces"
      "if_node j \<noteq> if_node k" "\<not> facility_port (if_node j)" "\<not> facility_port (if_node k)"
      "node_site (if_node j) = node_site (if_node i)" "node_site (if_node k) = node_site (if_node i)"
    for i j k
  proof -
    from defd that(1) obtain c where c: "?nps (node_site (if_node i)) = Some c" by auto
    from crowded[OF that(1) that(4) that(5) that(6) that(7) that(8) that(9) that(10) c]
    have "1 < c" .
    from check_hosts_unbound[OF errs that(1) that(2) c this that(3)] show ?thesis .
  qed
  have shared: "HostShared h \<in> set errs"
    if "p < q" "q < length interfaces"
       "if_model (interfaces ! p) = ''NIC_Basic''" "if_model (interfaces ! q) = ''NIC_Basic''"
       "node_host (if_node (interfaces ! p)) = Some h"
       "node_host (if_node (interfaces ! q)) = Some h"
       "if_node (interfaces ! p) \<noteq> if_node (interfaces ! q)"
       "\<not> facility_port (if_node (interfaces ! p))" "\<not> facility_port (if_node (interfaces ! q))"
       "node_site (if_node (interfaces ! p)) = node_site (if_node (interfaces ! q))"
    for p q h
  proof -
    have pin: "interfaces ! p \<in> set interfaces" and qin: "interfaces ! q \<in> set interfaces"
      using that(1) that(2) by auto
    from defd pin obtain c where c: "?nps (node_site (if_node (interfaces ! p))) = Some c" by auto
    from defd qin obtain d where d: "?nps (node_site (if_node (interfaces ! q))) = Some d" by auto
    have c1: "1 < c"
      using crowded[OF pin pin qin that(7) that(8) that(9) refl that(10)[symmetric] c] .
    have d1: "1 < d"
      using crowded[OF qin pin qin that(7) that(8) that(9) that(10) refl d] .
    from check_hosts_pair[OF errs that(1) that(2) that(3) c c1 that(5) that(4) d d1 that(6)]
    show ?thesis .
  qed
  show ?thesis
    apply (rule exI[of _ errs])
    apply (intro conjI)
       apply (rule val)
      apply (rule site)
    using unb apply blast
    using shared apply blast
    done
qed

lemma validate_L2STS_scenario:
  assumes "if_site A = if_site B" "if_site C \<noteq> if_site A"
    "node_site (if_node A) = node_site (if_node B)"
    "node_site (if_node C) \<noteq> node_site (if_node A)"
    "if_model A = ''NIC_Basic''" "if_model B = ''NIC_Basic''"
    "if_node A \<noteq> if_node B"
    "\<not> facility_port (if_node A)" "\<not> facility_port (if_node B)"
    "node_host (if_node A) = None" "node_host (if_node B) = None"
  shows "validate_nstype (Some L2STS) [A, B, C] =
     Inl (Violations [NodeUnbound (node_name (if_node A)), NodeUnbound (node_name (if_node B))])"
proof -
  have card: "card (set (map if_site [A, B, C])) = 2"
    using assms(1,2) by auto
  have nA: "nodes_per_site [A, B, C] (node_site (if_node A)) = Some 2"
    using assms by (simp add: nodes_per_site_eq)
  have nB: "nodes_per_site [A, B, C] (node_site (if_node B)) = Some 2"
    using nA assms(3) by simp
  have nC: "nodes_per_site [A, B, C] (node_site (if_node C)) =
      Some (if facility_port (if_node C) then 0 else 1)"
    using assms by (simp add: nodes_per_site_eq)
  show ?thesis
    unfolding validate_nstype_def Let_def card
    using assms(5,6,10,11) nA nB nC
    by simp
qed

text \<open>
  C3: for L2STS with more than two interfaces the validator returns one failure that
  carries the whole list of violations: the site count if it is not two, a missing host
  pin for every NIC_Basic interface whose node has no host and whose site holds more than
  one node that is not a facility port, and a shared host for every two such interfaces on
  different nodes pinned to the same host. In particular, for A and B on NIC_Basic at one
  site, on two different unpinned nodes, and C at another site, validation fails with the
  missing host pin of A and of B.
\<close>

theorem C3_L2STS_collects_violations:
  "(length interfaces > 2 \<longrightarrow>
     (\<exists>errs.
        validate_nstype (Some L2STS) interfaces
          = (if errs = [] then Inr True else Inl (Violations errs))
      \<and> (card (set (map if_site interfaces)) \<noteq> 2 \<longrightarrow>
            SiteCount (card (set (map if_site interfaces))) \<in> set errs)
      \<and> (\<forall>i\<in>set interfaces.
            if_model i = ''NIC_Basic'' \<and> node_host (if_node i) = None \<and>
            (\<exists>j\<in>set interfaces. \<exists>k\<in>set interfaces. if_node j \<noteq> if_node k
                \<and> \<not> facility_port (if_node j) \<and> \<not> facility_port (if_node k)
                \<and> node_site (if_node j) = node_site (if_node i)
                \<and> node_site (if_node k) = node_site (if_node i))
            \<longrightarrow> NodeUnbound (node_name (if_node i)) \<in> set errs)
      \<and> (\<forall>p q h. p < q \<and> q < length interfaces
            \<and> if_model (interfaces ! p) = ''NIC_Basic''
            \<and> if_model (interfaces ! q) = ''NIC_Basic''
            \<and> node_host (if_node (interfaces ! p)) = Some h
            \<and> node_host (if_node (interfaces ! q)) = Some h
            \<and> if_node (interfaces ! p) \<noteq> if_node (interfaces ! q)
            \<and> \<not> facility_port (if_node (interfaces ! p))
            \<and> \<not> facility_port (if_node (interfaces ! q))
            \<and> node_site (if_node (interfaces ! p)) = node_site (if_node (interfaces ! q))
            \<longrightarrow> HostShared h \<in> set errs)))
   \<and> (if_site A = if_site B \<and> if_site C \<noteq> if_site A
        \<and> node_site (if_node A) = node_site (if_node B)
        \<and> node_site (if_node C) \<noteq> node_site (if_node A)
        \<and> if_model A = ''NIC_Basic'' \<and> if_model B = ''NIC_Basic''
        \<and> if_node A \<noteq> if_node B
        \<and> \<not> facility_port (if_node A) \<and> \<not> facility_port (if_node B)
        \<and> node_host (if_node A) = None \<and> node_host (if_node B) = None
      \<longrightarrow> validate_nstype (Some L2STS) [A, B, C] =
            Inl (Violations [NodeUnbound (node_name (if_node A)),
                             NodeUnbound (node_name (if_node B))]))"
proof (intro conjI impI)
  assume "length interfaces > 2"
  from validate_L2STS_collects[OF this]
  show "\<exists>errs.
        validate_nstype (Some L2STS) interfaces
          = (if errs = [] then Inr True else Inl (Violations errs))
      \<and> (card (set (map if_site interfaces)) \<noteq> 2 \<longrightarrow>
            SiteCount (card (set (map if_site interfaces))) \<in> set errs)
      \<and> (\<forall>i\<in>set interfaces.
            if_model i = ''NIC_Basic'' \<and> node_host (if_node i) = None \<and>
            (\<exists>j\<in>set interfaces. \<exists>k\<in>set interfaces. if_node j \<noteq> if_node k
                \<and> \<not> facility_port (if_node j) \<and> \<not> facility_port (if_node k)
                \<and> node_site (if_node j) = node_site (if_node i)
                \<and> node_site (if_node k) = node_site (if_node i))
            \<longrightarrow> NodeUnbound (node_name (if_node i)) \<in> set errs)
      \<and> (\<forall>p q h. p < q \<and> q < length interfaces
            \<and> if_model (interfaces ! p) = ''NIC_Basic''
            \<and> if_model (interfaces ! q) = ''NIC_Basic''
            \<and> node_host (if_node (interfaces ! p)) = Some h
            \<and> node_host (if_node (interfaces ! q)) = Some h
            \<and> if_node (interfaces ! p) \<noteq> if_node (interfaces ! q)
            \<and> \<not> facility_port (if_node (interfaces ! p))
            \<and> \<not> facility_port (if_node (interfaces ! q))
            \<and> node_site (if_node (interfaces ! p)) = node_site (if_node (interfaces ! q))
            \<longrightarrow> HostShared h \<in> set errs)" .
next
  assume "if_site A = if_site B \<and> if_site C \<noteq> if_site A
        \<and> node_site (if_node A) = node_site (if_node B)
        \<and> node_site (if_node C) \<noteq> node_site (if_node A)
        \<and> if_model A = ''NIC_Basic'' \<and> if_model B = ''NIC_Basic''
        \<and> if_node A \<noteq> if_node B
        \<and> \<not> facility_port (if_node A) \<and> \<not> facility_port (if_node B)
        \<and> node_host (if_node A) = None \<and> node_host (if_node B) = None"
  then show "validate_nstype (Some L2STS) [A, B, C] =
            Inl (Violations [NodeUnbound (node_name (if_node A)),
                             NodeUnbound (node_name (if_node B))])"
    by (intro validate_L2STS_scenario) auto
qed

theorem C3_L2STS_collects_violations_witness:
  "length [ex_basic1, ex_basic2, ex_cx3] > 2
   \<and> validate_nstype (Some L2STS) [ex_basic1, ex_basic2, ex_cx3] =
       Inl (Violations [NodeUnbound ''n1'', NodeUnbound ''n2''])"
  using C3_L2STS_collects_violations[of "[ex_basic1, ex_basic2, ex_cx3]"
          ex_basic1 ex_basic2 ex_cx3]
  by (simp add: ex_defs)

section \<open>Properties of the metadata blob and the allocator\<close>

lemma get_fablib_data_set [simp]: "get_fablib_data (set_fablib_data d s) = d"
  by (simp add: get_fablib_data_def set_fablib_data_def get_user_data_def set_user_data_def)

lemma frame_set_fablib_data [simp]:
  "get_layer (set_fablib_data d s) = get_layer s"
  "get_name (set_fablib_data d s) = get_name s"
  "get_type (set_fablib_data d s) = get_type s"
  "sliver_subnet (set_fablib_data d s) = sliver_subnet s"
  "sliver_site (set_fablib_data d s) = sliver_site s"
  "cached_interfaces (set_fablib_data d s) = cached_interfaces s"
  "interface_list (fim (set_fablib_data d s)) = interface_list (fim s)"
  "fim_ero (fim (set_fablib_data d s)) = fim_ero (fim s)"
  by (simp_all add: set_fablib_data_def set_user_data_def get_layer_def get_name_def get_type_def)

lemma mk_addr_inj [simp]: "(mk_addr v x = mk_addr v y) = (x = y)"
  by (cases v) simp_all

lemma scan_subnet_find:
  "scan_subnet xs na al = find (\<lambda>h. h \<noteq> na \<and> h \<notin> set al) xs"
  by (induction xs) simp_all

lemma stored_allocated_ips_iff:
  "(stored_allocated_ips s = Some ips) =
     (\<exists>sd. fd_subnet (get_fablib_data s) = Some sd \<and> sd_allocated_ips sd = Some ips)"
  by (simp add: stored_allocated_ips_def split: option.splits)

lemma stored_allocated_ips_get: "stored_allocated_ips s = Some ips \<Longrightarrow> get_allocated_ips s = ips"
  by (auto simp: stored_allocated_ips_iff get_allocated_ips_def)

lemma get_subnet_set_allocated:
  assumes "fd_subnet (get_fablib_data s) = Some sd \<or> (fd_subnet (get_fablib_data s) = None \<and> sd = empty_subnet_data)"
  shows "get_subnet (set_fablib_data
            ((get_fablib_data s)\<lparr>fd_subnet := Some (sd\<lparr>sd_allocated_ips := x\<rparr>)\<rparr>) s)
         = get_subnet s"
  using assms
  by (auto simp add: get_subnet_def is_instantiated_def empty_subnet_data_def)

lemma set_allocated_ip_ok:
  assumes "stored_allocated_ips s = Some ips"
  shows "\<exists>s'. set_allocated_ip a s = Inr s' \<and> stored_allocated_ips s' = Some (ips @ [a])
           \<and> get_subnet s' = get_subnet s"
proof -
  from assms obtain sd where sd: "fd_subnet (get_fablib_data s) = Some sd"
      "sd_allocated_ips sd = Some ips"
    unfolding stored_allocated_ips_iff by blast
  let ?s' = "set_fablib_data
      ((get_fablib_data s)\<lparr>fd_subnet := Some (sd\<lparr>sd_allocated_ips := Some (ips @ [a])\<rparr>)\<rparr>) s"
  have 1: "set_allocated_ip a s = Inr ?s'"
    using sd by (simp add: set_allocated_ip_def Let_def)
  have 2: "stored_allocated_ips ?s' = Some (ips @ [a])"
    by (simp add: stored_allocated_ips_iff)
  have 3: "get_subnet ?s' = get_subnet s"
    using sd(1) by (intro get_subnet_set_allocated) simp
  from 1 2 3 show ?thesis by blast
qed


lemma set_subnet_ok: "stored_allocated_ips (set_subnet n s) = Some []"
  by (simp add: stored_allocated_ips_iff set_subnet_def Let_def)



lemma allocate_ip_auto:
  assumes sub: "get_subnet s = Subnet n" and al: "stored_allocated_ips s = Some ips"
  shows "(\<exists>h s'. allocate_ip None s = Inr (Some h, s')
            \<and> scan_subnet (subnet_iter n) (network_address n) ips = Some h
            \<and> stored_allocated_ips s' = Some (ips @ [h]) \<and> get_subnet s' = Subnet n)
       \<or> (allocate_ip None s = Inr (None, s)
            \<and> scan_subnet (subnet_iter n) (network_address n) ips = None)"
proof (cases "scan_subnet (subnet_iter n) (network_address n) ips")
  case None
  then show ?thesis using sub stored_allocated_ips_get[OF al]
    by (simp add: allocate_ip_def Let_def)
next
  case (Some h)
  from set_allocated_ip_ok[OF al, of h] obtain s' where
    "set_allocated_ip h s = Inr s'" "stored_allocated_ips s' = Some (ips @ [h])" "get_subnet s' = get_subnet s"
    by blast
  with Some show ?thesis using sub stored_allocated_ips_get[OF al]
    by (simp add: allocate_ip_def Let_def)
qed






text \<open>
  Where the subnet is known but the blob holds no list of allocated addresses (an
  instantiated L3 service whose blob has no \<^verbatim>\<open>"subnet"\<close> entry yet), the scan finds a
  host and \<^verbatim>\<open>set_allocated_ip\<close> raises on the missing key.
\<close>

lemma allocate_ip_missing_list:
  assumes "get_subnet s = Subnet n" "stored_allocated_ips s = None"
    "scan_subnet (subnet_iter n) (network_address n) [] = Some h"
  shows "allocate_ip None s = Inl (KeyError ''allocated_ips'')"
proof -
  have g: "get_allocated_ips s = []"
    using assms(2)
    by (simp add: get_allocated_ips_def stored_allocated_ips_def split: option.splits)
  have "set_allocated_ip h s = Inl (KeyError ''allocated_ips'')"
    using assms(2)
    by (simp add: set_allocated_ip_def stored_allocated_ips_def Let_def empty_subnet_data_def
          split: option.splits)
  with assms(1,3) g show ?thesis by (simp add: allocate_ip_def Let_def)
qed

lemma scan_subnet_prefix:
  assumes "Suc k < num_addresses n"
  shows "scan_subnet (subnet_iter n) (network_address n)
           (map (mk_addr (net_version n)) [Suc (net_address n) ..< Suc (net_address n) + k])
         = Some (mk_addr (net_version n) (Suc (net_address n) + k))"
proof -
  let ?a = "net_address n" and ?v = "net_version n"
  let ?ips = "map (mk_addr ?v) [Suc ?a ..< Suc ?a + k]"
  let ?P = "\<lambda>h. h \<noteq> network_address n \<and> h \<notin> set ?ips"
  have nth: "\<And>j. j < num_addresses n \<Longrightarrow> subnet_iter n ! j = mk_addr ?v (?a + j)"
    by (simp add: subnet_iter_def)
  have "find ?P (subnet_iter n) = Some (mk_addr ?v (Suc ?a + k))"
    unfolding find_Some_iff
  proof (intro exI[of _ "Suc k"] conjI allI impI)
    show "Suc k < length (subnet_iter n)" using assms by (simp add: subnet_iter_def)
    show "subnet_iter n ! Suc k \<noteq> network_address n"
      using nth[OF assms] by (simp add: network_address_def)
    show "subnet_iter n ! Suc k \<notin> set ?ips"
      using nth[OF assms] by (auto simp: image_iff)
    show "mk_addr ?v (Suc ?a + k) = subnet_iter n ! Suc k"
      using nth[OF assms] by simp
  next
    fix j assume j: "j < Suc k"
    then have jn: "j < num_addresses n" using assms by simp
    show "\<not> ?P (subnet_iter n ! j)"
    proof (cases j)
      case 0
      then show ?thesis using nth[OF jn] by (simp add: network_address_def)
    next
      case (Suc j')
      then have "mk_addr ?v (?a + j) \<in> set ?ips" using j by (auto simp: image_iff)
      then show ?thesis using nth[OF jn] by simp
    qed
  qed
  then show ?thesis by (simp add: scan_subnet_find)
qed

lemma allocate_n_run:
  assumes "get_subnet s = Subnet n"
    and "stored_allocated_ips s = Some (map (mk_addr (net_version n)) [Suc (net_address n) ..< Suc (net_address n) + k])"
    and "k + N < num_addresses n"
  shows "\<exists>s'. allocate_n N s =
           Inr (map (\<lambda>j. Some (mk_addr (net_version n) (Suc (net_address n) + k + j))) [0..<N], s')"
  using assms
proof (induction N arbitrary: s k)
  case 0
  then show ?case by simp
next
  case (Suc N)
  let ?v = "net_version n" and ?a = "net_address n"
  have sc: "scan_subnet (subnet_iter n) (network_address n)
           (map (mk_addr ?v) [Suc ?a ..< Suc ?a + k]) = Some (mk_addr ?v (Suc ?a + k))"
    using scan_subnet_prefix[of k n] Suc.prems(3) by simp
  from allocate_ip_auto[OF Suc.prems(1) Suc.prems(2)] sc
  obtain s1 where s1: "allocate_ip None s = Inr (Some (mk_addr ?v (Suc ?a + k)), s1)"
     "stored_allocated_ips s1 = Some (map (mk_addr ?v) [Suc ?a ..< Suc ?a + k] @ [mk_addr ?v (Suc ?a + k)])"
     "get_subnet s1 = Subnet n"
    by auto
  have "stored_allocated_ips s1 = Some (map (mk_addr ?v) [Suc ?a ..< Suc ?a + Suc k])"
    using s1(2) by simp
  from Suc.IH[OF s1(3) this] Suc.prems(3)
  obtain s' where s': "allocate_n N s1 =
     Inr (map (\<lambda>j. Some (mk_addr ?v (Suc ?a + Suc k + j))) [0..<N], s')"
    by auto
  have "map (\<lambda>j. Some (mk_addr ?v (Suc ?a + k + j))) [0..<Suc N]
      = Some (mk_addr ?v (Suc ?a + k)) # map (\<lambda>j. Some (mk_addr ?v (Suc ?a + Suc k + j))) [0..<N]"
    by (simp add: upt_conv_Cons map_Suc_upt[symmetric] del: upt_Suc)
  with s1(1) s' show ?case by simp
qed




lemma ex_subnet_service_subnet: "get_subnet ex_subnet_service = Subnet ex_net"
  by (simp add: ex_service_defs get_subnet_def is_instantiated_def set_subnet_def Let_def
      get_fablib_data_def get_user_data_def get_layer_def set_fablib_data_def set_user_data_def)

lemma ex_subnet_service_stored: "stored_allocated_ips ex_subnet_service = Some []"
  unfolding ex_subnet_service_def by (rule set_subnet_ok)

lemma ex_net_size: "num_addresses ex_net = 4"
  by (simp add: num_addresses_def ex_net_def)





section \<open>Sequences of allocator calls\<close>



lemma alloc_inv_mono: "alloc_inv R sub s \<Longrightarrow> R \<subseteq> R' \<Longrightarrow> alloc_inv R' sub s"
  unfolding alloc_inv_def by blast






text \<open>
  The scan of \<^verbatim>\<open>allocate_ip()\<close> runs over every address of the subnet: on a subnet
  of four addresses the third call returns the last one, the IPv4 broadcast address.
\<close>

lemma allocate_ip_reaches_broadcast:
  "map_sum id fst (allocate_n 3 ex_subnet_service)
     = Inr [Some (IPv4Address 9), Some (IPv4Address 10), Some (IPv4Address 11)]
   \<and> broadcast_address ex_net = IPv4Address 11
   \<and> IPv4Address 11 \<notin> host_range ex_net"
proof -
  have "\<exists>s'. allocate_n 3 ex_subnet_service =
      Inr (map (\<lambda>j. Some (mk_addr (net_version ex_net) (Suc (net_address ex_net) + 0 + j)))
             [0..<3], s')"
    using ex_subnet_service_subnet ex_subnet_service_stored ex_net_size
    by (intro allocate_n_run) simp_all
  moreover have "map (\<lambda>j. Some (mk_addr (net_version ex_net) (Suc (net_address ex_net) + 0 + j)))
             [0..<3] = [Some (IPv4Address 9), Some (IPv4Address 10), Some (IPv4Address 11)]"
    by (simp add: ex_net_def upt_rec numeral_3_eq_3)
  ultimately have 1: "map_sum id fst (allocate_n 3 ex_subnet_service)
     = Inr [Some (IPv4Address 9), Some (IPv4Address 10), Some (IPv4Address 11)]"
    by auto
  have 2: "broadcast_address ex_net = IPv4Address 11"
    by (simp add: broadcast_address_def ex_net_def num_addresses_def)
  have 3: "IPv4Address 11 \<notin> host_range ex_net"
    unfolding host_range_def 2 by (simp add: ex_net_def)
  from 1 2 3 show ?thesis by simp
qed



section \<open>Properties of interface mutation\<close>

lemma frame_set_user_data [simp]:
  "fim_type (fim (set_user_data u s)) = fim_type (fim s)"
  "fim_name (fim (set_user_data u s)) = fim_name (fim s)"
  "fim_layer (fim (set_user_data u s)) = fim_layer (fim s)"
  "interface_list (fim (set_user_data u s)) = interface_list (fim s)"
  "fim_ero (fim (set_user_data u s)) = fim_ero (fim s)"
  "cached_interfaces (set_user_data u s) = cached_interfaces s"
  "get_user_data (set_user_data u s) = u"
  by (simp_all add: set_user_data_def get_user_data_def)

lemma frame_set_fablib_data_fim [simp]:
  "fim_type (fim (set_fablib_data d s)) = fim_type (fim s)"
  "fim_name (fim (set_fablib_data d s)) = fim_name (fim s)"
  "fim_layer (fim (set_fablib_data d s)) = fim_layer (fim s)"
  by (simp_all add: set_fablib_data_def)

lemma frame_disconnect [simp]:
  "get_user_data (disconnect_interface i s) = get_user_data s"
  "cached_interfaces (disconnect_interface i s) = cached_interfaces s"
  "fim_type (fim (disconnect_interface i s)) = fim_type (fim s)"
  "fim_name (fim (disconnect_interface i s)) = fim_name (fim s)"
  "interface_list (fim (disconnect_interface i s)) = remove1 i (interface_list (fim s))"
  by (simp_all add: disconnect_interface_def get_user_data_def)

lemma frame_disconnect_all [simp]:
  "get_user_data (foldl (\<lambda>t i. disconnect_interface i t) s xs) = get_user_data s"
  "cached_interfaces (foldl (\<lambda>t i. disconnect_interface i t) s xs) = cached_interfaces s"
  "fim_name (fim (foldl (\<lambda>t i. disconnect_interface i t) s xs)) = fim_name (fim s)"
  "sliver_subnet (foldl (\<lambda>t i. disconnect_interface i t) s xs) = sliver_subnet s"
  "sliver_site (foldl (\<lambda>t i. disconnect_interface i t) s xs) = sliver_site s"
  by (induction xs arbitrary: s) (simp_all add: disconnect_interface_def get_user_data_def)

lemma disconnect_all_fim_update [simp]:
  "(foldl (\<lambda>t i. disconnect_interface i t) s xs)\<lparr>fim := F\<rparr> = s\<lparr>fim := F\<rparr>"
  by (induction xs arbitrary: s) (simp_all add: disconnect_interface_def)

lemma get_interfaces_fst_snd:
  "cached_interfaces (snd (get_interfaces s)) = Some (fst (get_interfaces s))"
  "fim (snd (get_interfaces s)) = fim s"
  "sliver_subnet (snd (get_interfaces s)) = sliver_subnet s"
  "sliver_site (snd (get_interfaces s)) = sliver_site s"
  by (simp_all add: get_interfaces_def split: option.splits list.splits)

lemma get_interfaces_cached:
  "cached_interfaces s = Some (x # xs) \<Longrightarrow> get_interfaces s = (x # xs, s)"
  by (simp add: get_interfaces_def)

text \<open>The facade after a migration to type t with interfaces xs.\<close>

lemma replace_network_service_eq:
  assumes "cached_interfaces s = Some (x # xs)"
  shows "replace_network_service t s =
     s\<lparr>fim := \<lparr>fim_name = fim_name (fim s), fim_type = t, fim_layer = layer_of t,
               interface_list = x # xs, fim_user_data = Some (get_user_data s),
               fim_ero = False\<rparr>\<rparr>"
  using assms
  by (simp add: replace_network_service_def get_interfaces_cached Let_def get_name_def
        add_network_service_def set_user_data_def)


lemma allocate_ip_frame:
  assumes "allocate_ip addr s = Inr (r, s')"
  shows "fim_type (fim s') = fim_type (fim s) \<and> interface_list (fim s') = interface_list (fim s)
         \<and> get_layer s' = get_layer s \<and> fim_name (fim s') = fim_name (fim s)
         \<and> cached_interfaces s' = cached_interfaces s"
proof -
  have sa: "\<And>a t. set_allocated_ip a s = Inr t \<Longrightarrow>
      fim_type (fim t) = fim_type (fim s) \<and> interface_list (fim t) = interface_list (fim s)
         \<and> get_layer t = get_layer s \<and> fim_name (fim t) = fim_name (fim s)
         \<and> cached_interfaces t = cached_interfaces s"
    by (auto simp: set_allocated_ip_def Let_def split: option.splits)
  from assms show ?thesis
    unfolding allocate_ip_def Let_def
    by (auto split: option.splits subnet_value.splits sum.splits if_splits dest!: sa)
qed


lemma add_interface_address_none:
  "(if_data_addr i = None \<and> \<not> if_data_auto i) \<or> get_subnet s = NoSubnet \<Longrightarrow> get_layer s = L2 \<Longrightarrow>
     add_interface_address i s = Inr s"
  by (auto simp: add_interface_address_def)







lemma add_interface_PortMirror: "get_type s = PortMirror \<Longrightarrow> add_interface i s = Inl PortMirrorAttach"
  by (simp add: add_interface_def add_interface_attach_def)

lemma free_ip_frame [simp]:
  "fim_type (fim (free_ip a s)) = fim_type (fim s)"
  "fim_name (fim (free_ip a s)) = fim_name (fim s)"
  "fim_layer (fim (free_ip a s)) = fim_layer (fim s)"
  "fim_ero (fim (free_ip a s)) = fim_ero (fim s)"
  "interface_list (fim (free_ip a s)) = interface_list (fim s)"
  "cached_interfaces (free_ip a s) = cached_interfaces s"
  by (simp_all add: free_ip_def set_allocated_ips_def Let_def)

text \<open>
  C7: on a PortMirror service \<^verbatim>\<open>add_interface\<close> raises before it changes anything.
  \<^verbatim>\<open>remove_interface\<close> has no such guard: on a PortMirror service with one interface
  it detaches the interface, and, the service being of layer L2, re-evaluates the type and
  replaces the service by an L2Bridge.
\<close>

theorem C7_portmirror_remove_interface:
  "add_interface ex_cx3 (ex_service PortMirror [ex_cx1]) = Inl PortMirrorAttach
   \<and> map_sum id (\<lambda>s. (get_type s, interface_list (fim s)))
        (remove_interface ex_cx1 (ex_service PortMirror [ex_cx1])) = Inr (L2Bridge, [])"
proof -
  let ?s = "ex_service PortMirror [ex_cx1]"
  have 1: "add_interface ex_cx3 ?s = Inl PortMirrorAttach"
    by (rule add_interface_PortMirror) (simp add: get_type_def ex_service_def)
  let ?s1 = "free_ip (if_ip_addr ex_cx1) ?s"
  have g: "get_interfaces ?s1 = ([ex_cx1], ?s1\<lparr>cached_interfaces := Some [ex_cx1]\<rparr>)"
    by (simp add: get_interfaces_def ex_service_def)
  let ?s3 = "?s1\<lparr>cached_interfaces := Some []\<rparr>"
  have c: "calculate_l2_nstype [] False = Inr (Some L2Bridge)"
    by (simp add: calculate_l2_nstype_def)
  have r: "replace_network_service L2Bridge ?s3 =
      ?s3\<lparr>fim := \<lparr>fim_name = ''net1'', fim_type = L2Bridge, fim_layer = L2,
               interface_list = [ex_cx1], fim_user_data = Some (get_user_data ?s1),
               fim_ero = False\<rparr>, cached_interfaces := Some [ex_cx1]\<rparr>"
    by (simp add: replace_network_service_def get_interfaces_def Let_def get_name_def
          add_network_service_def set_user_data_def ex_service_def get_user_data_def
          disconnect_interface_def)
  have rt: "retype [] (\<lambda>t. t) ?s3 = Inr (replace_network_service L2Bridge ?s3)"
    using c by (simp add: retype_def Let_def get_type_def ex_service_def)
  have "remove_interface ex_cx1 ?s = Inr (disconnect_interface ex_cx1 (replace_network_service L2Bridge ?s3))"
    unfolding remove_interface_def Let_def g using rt
    by (simp add: get_layer_def ex_service_def)
  then have 2: "map_sum id (\<lambda>s. (get_type s, interface_list (fim s)))
        (remove_interface ex_cx1 ?s) = Inr (L2Bridge, [])"
    unfolding r by (simp add: get_type_def)
  from 1 2 show ?thesis by simp
qed

section \<open>VLAN pairing\<close>

lemma new_network_service_fim:
  "new_network_service name nstype interfaces ud = Inr s \<Longrightarrow>
     nstype = Some (fim_type (fim s)) \<and> interface_list (fim s) = interfaces"
  by (auto simp: new_network_service_def init_fablib_data_def add_network_service_def
        split: option.splits)

lemma new_l2network_L2PTP:
  assumes "new_l2network name interfaces type ud = Inr s" "fim_type (fim s) = L2PTP"
    "interfaces \<noteq> []"
  shows "pair_vlans interfaces = Inr (interface_list (fim s))"
proof -
  define T where "T = (case type of
              None \<Rightarrow> calculate_l2_nstype interfaces False
            | Some t \<Rightarrow>
                if t \<in> set fim_l2network_service_types then Inr (network_service_map t)
                else Inl (InvalidL2Type t))"
  have eq: "new_l2network name interfaces type ud =
     (case T of Inl e \<Rightarrow> Inl e
      | Inr nstype \<Rightarrow>
          (case validate_nstype nstype interfaces of
             Inl e \<Rightarrow> Inl e
           | Inr ok \<Rightarrow>
               (case (if nstype = Some L2PTP \<and> length interfaces \<noteq> 0
                      then pair_vlans interfaces else Inr interfaces) of
                  Inl e \<Rightarrow> Inl e
                | Inr interfaces' \<Rightarrow> new_network_service name nstype interfaces' ud)))"
    by (simp add: new_l2network_def T_def)
  from assms(1) eq obtain nstype ok interfaces' where
    n: "T = Inr nstype" "validate_nstype nstype interfaces = Inr ok"
       "(if nstype = Some L2PTP \<and> length interfaces \<noteq> 0
                      then pair_vlans interfaces else Inr interfaces) = Inr interfaces'"
       "new_network_service name nstype interfaces' ud = Inr s"
    by (auto split: sum.splits)
  from new_network_service_fim[OF n(4)] assms(2)
  have "nstype = Some L2PTP" "interface_list (fim s) = interfaces'" by simp_all
  with n(3) assms(3) show ?thesis by simp
qed

lemma add_interface_attach_interface_list:
  assumes "add_interface_attach i t = Inr m"
  shows "interface_list (fim m) = fst (get_interfaces t) @ [i]
       \<or> interface_list (fim m) = interface_list (fim t) @ [i]
       \<or> interface_list (fim m) = interface_list (fim t)"
proof -
  obtain ifs s1 where g: "get_interfaces t = (ifs, s1)" by (cases "get_interfaces t")
  have f1: "fim s1 = fim t" using get_interfaces_fst_snd(2)[of t] g by simp
  let ?s2 = "s1\<lparr>cached_interfaces := Some (ifs @ [i])\<rparr>"
  obtain x xs where x: "ifs @ [i] = x # xs" by (cases ifs) auto
  have rep: "interface_list (fim (replace_network_service ty ?s2)) = ifs @ [i]" for ty
    using replace_network_service_eq[of ?s2 x xs ty] x by simp
  have con: "interface_list (fim (connect_interface i ?s2)) = interface_list (fim t) @ [i]"
    using f1 by (simp add: connect_interface_def)
  have rt: "retype (ifs @ [i]) (connect_interface i) ?s2 = Inr m \<Longrightarrow>
      interface_list (fim m) = ifs @ [i] \<or> interface_list (fim m) = interface_list (fim t) @ [i]"
    using rep con
    by (auto simp: retype_def Let_def split: sum.splits if_splits option.splits)
  from assms g f1 rt show ?thesis
    by (auto simp: add_interface_attach_def Let_def split: if_splits)
qed

lemma add_interface_address_interface_list:
  assumes "add_interface_address i m = Inr t'"
  shows "interface_list (fim t') = interface_list (fim m)
       \<or> interface_list (fim t') = interface_list (fim m) @ [i]"
proof -
  define R where "R = (if get_subnet m \<noteq> NoSubnet then
              (case if_data_addr i of
                 Some addr \<Rightarrow> allocate_ip (Some addr) m
               | None \<Rightarrow> if if_data_auto i then allocate_ip None m else Inr (None, m))
            else Inr (None, m))"
  have eq: "add_interface_address i m =
      (case R of Inl e \<Rightarrow> Inl e
       | Inr (r, t) \<Rightarrow> Inr (if get_layer t = L3 then connect_interface i t else t))"
    by (simp add: add_interface_address_def R_def)
  show ?thesis
  proof (cases R)
    case (Inl e)
    with eq assms show ?thesis by simp
  next
    case (Inr p)
    obtain r t where p: "p = (r, t)" by (cases p)
    have src: "(\<exists>addr. allocate_ip addr m = Inr (r, t)) \<or> t = m"
      using Inr p unfolding R_def by (auto split: if_splits option.splits)
    then have l: "interface_list (fim t) = interface_list (fim m)"
      using allocate_ip_frame by fastforce
    have "t' = (if get_layer t = L3 then connect_interface i t else t)"
      using eq assms Inr p by simp
    with l show ?thesis by (simp add: connect_interface_def)
  qed
qed

lemma pair_vlans_cases:
  "\<exists>j0 j1. pair_vlans (i0 # i1 # rest) = Inr (j0 # j1 # rest)
     \<and> (if_vlan i0 = None \<and> if_vlan i1 = None \<longrightarrow>
           j0 = i0\<lparr>if_vlan := Some ''100''\<rparr> \<and> j1 = i1\<lparr>if_vlan := Some ''100''\<rparr>)
     \<and> (if_vlan i0 = None \<and> if_vlan i1 \<noteq> None \<longrightarrow>
           j0 = i0\<lparr>if_vlan := if_vlan i1\<rparr> \<and> j1 = i1)
     \<and> (if_vlan i0 \<noteq> None \<and> if_vlan i1 = None \<longrightarrow>
           j0 = i0 \<and> j1 = i1\<lparr>if_vlan := if_vlan i0\<rparr>)
     \<and> (if_vlan i0 \<noteq> None \<and> if_vlan i1 \<noteq> None \<longrightarrow> j0 = i0 \<and> j1 = i1)"
  by (cases "if_vlan i0"; cases "if_vlan i1") simp_all

text \<open>
  C10, amended: the VLAN pairing is done by the factory \<^verbatim>\<open>new_l2network\<close>. When it
  creates an L2PTP service from a list that starts with the interfaces \<open>i0\<close> and \<open>i1\<close>, then
  both get the tag 100 if neither has a tag, the one without a tag gets the tag of the
  other if exactly one has a tag, and both keep their tags otherwise; the other interfaces
  are attached as they are. \<^verbatim>\<open>add_interface\<close> sets no tag: every interface attached
  after it was attached or cached before, or is the added interface, unchanged.
\<close>

theorem C10_vlan_pairing:
  "(new_l2network name (i0 # i1 # rest) type ud = Inr s \<and> get_type s = L2PTP \<longrightarrow>
      (\<exists>j0 j1. interface_list (fim s) = j0 # j1 # rest
         \<and> (if_vlan i0 = None \<and> if_vlan i1 = None \<longrightarrow>
               j0 = i0\<lparr>if_vlan := Some ''100''\<rparr> \<and> j1 = i1\<lparr>if_vlan := Some ''100''\<rparr>)
         \<and> (if_vlan i0 = None \<and> if_vlan i1 \<noteq> None \<longrightarrow>
               j0 = i0\<lparr>if_vlan := if_vlan i1\<rparr> \<and> j1 = i1)
         \<and> (if_vlan i0 \<noteq> None \<and> if_vlan i1 = None \<longrightarrow>
               j0 = i0 \<and> j1 = i1\<lparr>if_vlan := if_vlan i0\<rparr>)
         \<and> (if_vlan i0 \<noteq> None \<and> if_vlan i1 \<noteq> None \<longrightarrow> j0 = i0 \<and> j1 = i1)))
   \<and> (add_interface i t = Inr t' \<longrightarrow>
        set (interface_list (fim t'))
          \<subseteq> set (interface_list (fim t)) \<union> set (fst (get_interfaces t)) \<union> {i})"
proof (intro conjI impI)
  assume a: "new_l2network name (i0 # i1 # rest) type ud = Inr s \<and> get_type s = L2PTP"
  then have "pair_vlans (i0 # i1 # rest) = Inr (interface_list (fim s))"
    by (intro new_l2network_L2PTP[of name _ type ud]) (simp_all add: get_type_def)
  with pair_vlans_cases[of i0 i1 rest]
  show "\<exists>j0 j1. interface_list (fim s) = j0 # j1 # rest
         \<and> (if_vlan i0 = None \<and> if_vlan i1 = None \<longrightarrow>
               j0 = i0\<lparr>if_vlan := Some ''100''\<rparr> \<and> j1 = i1\<lparr>if_vlan := Some ''100''\<rparr>)
         \<and> (if_vlan i0 = None \<and> if_vlan i1 \<noteq> None \<longrightarrow>
               j0 = i0\<lparr>if_vlan := if_vlan i1\<rparr> \<and> j1 = i1)
         \<and> (if_vlan i0 \<noteq> None \<and> if_vlan i1 = None \<longrightarrow>
               j0 = i0 \<and> j1 = i1\<lparr>if_vlan := if_vlan i0\<rparr>)
         \<and> (if_vlan i0 \<noteq> None \<and> if_vlan i1 \<noteq> None \<longrightarrow> j0 = i0 \<and> j1 = i1)"
    by (metis sum.inject(2))
next
  assume a: "add_interface i t = Inr t'"
  then obtain m where m: "add_interface_attach i t = Inr m" "add_interface_address i m = Inr t'"
    by (auto simp: add_interface_def split: sum.splits)
  from add_interface_attach_interface_list[OF m(1)] add_interface_address_interface_list[OF m(2)]
  show "set (interface_list (fim t'))
          \<subseteq> set (interface_list (fim t)) \<union> set (fst (get_interfaces t)) \<union> {i}"
    by auto
qed

text \<open>
  C10, as stated, fails: adding an interface at a second site to a bridge with one facility
  interface forms an L2PTP service, and \<^verbatim>\<open>add_interface\<close> leaves both interfaces
  without a VLAN tag.
\<close>

theorem C10_counterexample:
  "map_sum id (\<lambda>s. (get_type s, map if_vlan (interface_list (fim s))))
     (add_interface ex_cx1 (ex_service L2Bridge [ex_fp])) = Inr (L2PTP, [None, None])"
proof -
  let ?s = "ex_service L2Bridge [ex_fp]"
  let ?s2 = "?s\<lparr>cached_interfaces := Some [ex_fp, ex_cx1]\<rparr>"
  let ?m = "?s2\<lparr>fim := \<lparr>fim_name = ''net1'', fim_type = L2PTP, fim_layer = L2,
               interface_list = [ex_fp, ex_cx1], fim_user_data = Some (get_user_data ?s),
               fim_ero = False\<rparr>\<rparr>"
  have c: "calculate_l2_nstype [ex_fp, ex_cx1] False = Inr (Some L2PTP)"
    by (simp add: calculate_l2_nstype_eq ex_defs)
  have r: "replace_network_service L2PTP ?s2 = ?m"
    using replace_network_service_eq[of ?s2 ex_fp "[ex_cx1]" L2PTP]
    by (simp add: ex_service_def get_user_data_def)
  have rt: "retype [ex_fp, ex_cx1] (connect_interface ex_cx1) ?s2 = Inr ?m"
    using c r by (simp add: retype_def Let_def get_type_def ex_service_def)
  have att: "add_interface_attach ex_cx1 ?s = Inr ?m"
    using rt
    by (simp add: add_interface_attach_def get_interfaces_def Let_def get_type_def get_layer_def
          ex_service_def)
  have "add_interface_address ex_cx1 ?m = Inr ?m"
    by (rule add_interface_address_none) (simp_all add: ex_defs get_layer_def)
  with att have "add_interface ex_cx1 ?s = Inr ?m" by (simp add: add_interface_def)
  then show ?thesis by (simp add: get_type_def ex_defs)
qed

theorem C10_vlan_pairing_witness:
  "\<exists>s. new_l2network ''net1'' [ex_fp, ex_cx1] None empty_user_data = Inr s
      \<and> get_type s = L2PTP
      \<and> map if_vlan (interface_list (fim s)) = [Some ''100'', Some ''100'']"
proof -
  have c: "calculate_l2_nstype [ex_fp, ex_cx1] False = Inr (Some L2PTP)"
    by (simp add: calculate_l2_nstype_eq ex_defs)
  have v: "validate_nstype (Some L2PTP) [ex_fp, ex_cx1] = Inr True"
    by (simp add: validate_nstype_def ex_defs)
  have "\<exists>s. new_l2network ''net1'' [ex_fp, ex_cx1] None empty_user_data = Inr s
      \<and> get_type s = L2PTP"
    using c v
    by (simp add: new_l2network_def new_network_service_def init_fablib_data_def
          add_network_service_def get_type_def ex_defs)
  then obtain s where s: "new_l2network ''net1'' [ex_fp, ex_cx1] None empty_user_data = Inr s"
      "get_type s = L2PTP" by blast
  have n: "if_vlan ex_fp = None \<and> if_vlan ex_cx1 = None" by (simp add: ex_defs)
  from C10_vlan_pairing[of "''net1''" ex_fp ex_cx1 "[]" None empty_user_data s] s n
  obtain j0 j1 where j: "interface_list (fim s) = [j0, j1]"
      "j0 = ex_fp\<lparr>if_vlan := Some ''100''\<rparr>" "j1 = ex_cx1\<lparr>if_vlan := Some ''100''\<rparr>"
    by blast
  then have "map if_vlan (interface_list (fim s)) = [Some ''100'', Some ''100'']"
    by simp
  with s show ?thesis by (intro exI[of _ s]) simp
qed

end
